theory Spec2Isabelle
  imports Main
begin

section \<open>Design tokens (src/theme/colors.ts and the theme index)\<close>

text \<open>
  The interface \<^verbatim>\<open>ColorTokens\<close> is a struct of structs of strings. Each inner struct is a
  record; a field name that several inner structs share (\<^verbatim>\<open>default\<close>, \<^verbatim>\<open>disabled\<close>,
  \<^verbatim>\<open>primary\<close>) carries the group as a prefix, since record fields are global names.
\<close>

record PaletteColor =
  main :: string
  light :: string
  dark :: string
  contrast :: string

record BackgroundColors =
  bg_default :: string
  bg_paper :: string
  bg_elevated :: string

record SurfaceColors =
  sf_default :: string
  sf_variant :: string
  sf_disabled :: string

record TextColors =
  tx_primary :: string
  tx_secondary :: string
  tx_disabled :: string
  tx_inverse :: string

record BorderColors =
  bd_default :: string
  bd_focused :: string
  bd_disabled :: string

record ColorTokens =
  c_primary :: PaletteColor
  c_secondary :: PaletteColor
  c_background :: BackgroundColors
  c_surface :: SurfaceColors
  c_text :: TextColors
  c_border :: BorderColors
  c_success :: PaletteColor
  c_error :: PaletteColor
  c_warning :: PaletteColor
  c_info :: PaletteColor
  c_golden :: PaletteColor

text \<open>
  \<^verbatim>\<open>interface Theme { colors: Colors; typography: ...; spacing: ...; ... }\<close>. Only the colour
  table is read by the code modelled below. The remaining token tables (typography, spacing,
  radius, sizes: numbers scaled by the screen dimensions) live in the extension slot of the
  record: a function on \<open>'z Theme_scheme\<close> takes a theme with any further fields.
\<close>

record Theme =
  colors :: ColorTokens

text \<open>\<^verbatim>\<open>export type ColorScheme = 'light' | 'dark'\<close>\<close>

datatype ColorScheme = Light | Dark

text \<open>The entries of \<^verbatim>\<open>palette\<close> that the two colour tables use.\<close>

definition lightColors :: ColorTokens where
  "lightColors =
    \<lparr> c_primary = \<lparr> main = ''#f59e0b'', light = ''#ffd23f'', dark = ''#d97706'', contrast = ''#000000'' \<rparr>,
      c_secondary = \<lparr> main = ''#525252'', light = ''#a3a3a3'', dark = ''#404040'', contrast = ''#ffffff'' \<rparr>,
      c_background = \<lparr> bg_default = ''#f7f9fc'', bg_paper = ''#ffffff'', bg_elevated = ''#ffffff'' \<rparr>,
      c_surface = \<lparr> sf_default = ''#ffffff'', sf_variant = ''#f3f4f6'', sf_disabled = ''#e5e5e5'' \<rparr>,
      c_text = \<lparr> tx_primary = ''#2d3748'', tx_secondary = ''#525252'', tx_disabled = ''#a3a3a3'',
                 tx_inverse = ''#ffffff'' \<rparr>,
      c_border = \<lparr> bd_default = ''#e5e5e5'', bd_focused = ''#f59e0b'', bd_disabled = ''#d4d4d4'' \<rparr>,
      c_success = \<lparr> main = ''#22c55e'', light = ''#dcfce7'', dark = ''#15803d'', contrast = ''#ffffff'' \<rparr>,
      c_error = \<lparr> main = ''#ef4444'', light = ''#fee2e2'', dark = ''#b91c1c'', contrast = ''#ffffff'' \<rparr>,
      c_warning = \<lparr> main = ''#f97316'', light = ''#ffedd5'', dark = ''#c2410c'', contrast = ''#000000'' \<rparr>,
      c_info = \<lparr> main = ''#3b82f6'', light = ''#dbeafe'', dark = ''#1d4ed8'', contrast = ''#ffffff'' \<rparr>,
      c_golden = \<lparr> main = ''#f59e0b'', light = ''#fff3c4'', dark = ''#d97706'', contrast = ''#000000'' \<rparr> \<rparr>"

definition darkColors :: ColorTokens where
  "darkColors =
    \<lparr> c_primary = \<lparr> main = ''#ffbe0b'', light = ''#ffd23f'', dark = ''#f59e0b'', contrast = ''#000000'' \<rparr>,
      c_secondary = \<lparr> main = ''#a3a3a3'', light = ''#d4d4d4'', dark = ''#525252'', contrast = ''#000000'' \<rparr>,
      c_background = \<lparr> bg_default = ''#1a1d2e'', bg_paper = ''#252947'', bg_elevated = ''#2d3253'' \<rparr>,
      c_surface = \<lparr> sf_default = ''#252947'', sf_variant = ''#2d3253'', sf_disabled = ''#525252'' \<rparr>,
      c_text = \<lparr> tx_primary = ''#f7fafc'', tx_secondary = ''#cbd5e0'', tx_disabled = ''#737373'',
                 tx_inverse = ''#000000'' \<rparr>,
      c_border = \<lparr> bd_default = ''#4a5568'', bd_focused = ''#ffbe0b'', bd_disabled = ''#404040'' \<rparr>,
      c_success = \<lparr> main = ''#22c55e'', light = ''#f0fdf4'', dark = ''#15803d'', contrast = ''#000000'' \<rparr>,
      c_error = \<lparr> main = ''#ef4444'', light = ''#fef2f2'', dark = ''#b91c1c'', contrast = ''#ffffff'' \<rparr>,
      c_warning = \<lparr> main = ''#f97316'', light = ''#fff7ed'', dark = ''#c2410c'', contrast = ''#000000'' \<rparr>,
      c_info = \<lparr> main = ''#3b82f6'', light = ''#eff6ff'', dark = ''#1d4ed8'', contrast = ''#ffffff'' \<rparr>,
      c_golden = \<lparr> main = ''#ffbe0b'', light = ''#fffdf7'', dark = ''#d97706'', contrast = ''#000000'' \<rparr> \<rparr>"

definition lightTheme :: Theme where
  "lightTheme = \<lparr> colors = lightColors \<rparr>"

definition darkTheme :: Theme where
  "darkTheme = \<lparr> colors = darkColors \<rparr>"

text \<open>\<^verbatim>\<open>export const themes = { light: lightTheme, dark: darkTheme }\<close>, indexed by a ColorScheme.\<close>

fun themes :: "ColorScheme \<Rightarrow> Theme" where
  "themes Light = lightTheme"
| "themes Dark = darkTheme"


section \<open>Theme provider (src/providers/ThemeProvider.tsx)\<close>

text \<open>
  The selection \<^verbatim>\<open>ColorScheme | 'auto'\<close> held by \<^verbatim>\<open>useState\<close>, and the value of the host's
  \<^verbatim>\<open>useColorScheme()\<close>: \<^verbatim>\<open>'light'\<close>, \<^verbatim>\<open>'dark'\<close>, or no preference (\<^verbatim>\<open>null\<close>/\<^verbatim>\<open>undefined\<close>),
  which is \<open>None\<close>.
\<close>

datatype Selection = Scheme ColorScheme | Auto

type_synonym ColorSchemeName = "ColorScheme option"

record ThemeProviderProps =
  initialColorScheme :: "Selection option"
  forcedTheme :: "Theme option"

text \<open>The provider's only state cell: \<^verbatim>\<open>const [userColorScheme, setUserColorScheme] = useState(...)\<close>.\<close>

record ProviderState =
  userColorScheme :: Selection

text \<open>
  The context value. The two callbacks are closures over the render that built them; each is
  the state update it performs when called.
\<close>

record ThemeContextType =
  theme :: Theme
  colorScheme :: ColorScheme
  setColorScheme :: "Selection \<Rightarrow> ProviderState \<Rightarrow> ProviderState"
  toggleColorScheme :: "ProviderState \<Rightarrow> ProviderState"
  isDark :: bool
  isLight :: bool

text \<open>First render: \<^verbatim>\<open>useState(initialColorScheme)\<close> with the default parameter \<^verbatim>\<open>'auto'\<close>.\<close>

definition mount :: "ThemeProviderProps \<Rightarrow> ProviderState" where
  "mount props =
     \<lparr> userColorScheme = (case initialColorScheme props of None \<Rightarrow> Auto | Some s \<Rightarrow> s) \<rparr>"

definition setUserColorScheme :: "Selection \<Rightarrow> ProviderState \<Rightarrow> ProviderState" where
  "setUserColorScheme s st = st\<lparr> userColorScheme := s \<rparr>"

text \<open>
  \<^verbatim>\<open>userColorScheme === 'auto' ? (systemColorScheme === 'dark' ? 'dark' : 'light') : userColorScheme\<close>
\<close>

definition activeColorScheme :: "Selection \<Rightarrow> ColorSchemeName \<Rightarrow> ColorScheme" where
  "activeColorScheme user system =
     (case user of
        Auto \<Rightarrow> (if system = Some Dark then Dark else Light)
      | Scheme s \<Rightarrow> s)"

text \<open>
  One render of the provider body, from the props, the state cell and the host's preference, to
  the context value handed to the subtree.
\<close>

definition ThemeProvider ::
  "ThemeProviderProps \<Rightarrow> ProviderState \<Rightarrow> ColorSchemeName \<Rightarrow> ThemeContextType" where
  "ThemeProvider props st systemColorScheme =
     (let active = activeColorScheme (userColorScheme st) systemColorScheme;
          currentTheme = (case forcedTheme props of Some t \<Rightarrow> t | None \<Rightarrow> themes active)
      in \<lparr> theme = currentTheme,
           colorScheme = active,
           setColorScheme = (\<lambda>scheme. setUserColorScheme scheme),
           toggleColorScheme =
             (if userColorScheme st = Auto
              then setUserColorScheme (Scheme (if systemColorScheme = Some Dark then Light else Dark))
              else setUserColorScheme (Scheme (if active = Light then Dark else Light))),
           isDark = (active = Dark),
           isLight = (active = Light) \<rparr>)"

text \<open>
  \<^verbatim>\<open>useContext(ThemeContext)\<close>: the value of the nearest enclosing provider, or the default
  \<^verbatim>\<open>undefined\<close> of \<^verbatim>\<open>createContext\<close> when there is none. The scope of a component is the list
  of the context values of the providers around it, innermost first.
\<close>

datatype error = Error string | TypeError

definition useContext :: "ThemeContextType list \<Rightarrow> ThemeContextType option" where
  "useContext scope = (case scope of [] \<Rightarrow> None | c # _ \<Rightarrow> Some c)"

definition useTheme :: "ThemeContextType list \<Rightarrow> error + ThemeContextType" where
  "useTheme scope =
     (case useContext scope of
        None \<Rightarrow> Inl (Error ''useTheme must be used within a ThemeProvider'')
      | Some context \<Rightarrow> Inr context)"


section \<open>Style factory (makeStyles utility)\<close>

text \<open>
  \<^verbatim>\<open>const styleCache = new Map<string, any>()\<close> is one map of the module, shared by every
  accessor that \<^verbatim>\<open>createStyles\<close> returns. A style object is a reference: the module state
  holds the objects allocated so far (\<open>heap\<close>, the address of an object is its index), and the
  cache maps a key to an address. \<open>creatorCalls\<close> records the themes the style creators were
  called on, in order.
\<close>

record ('st, 'z) StyleModule =
  styleCache :: "string \<rightharpoonup> nat"
  heap :: "'st list"
  creatorCalls :: "'z Theme_scheme list"

definition initialModule :: "('st, 'z) StyleModule" where
  "initialModule = \<lparr> styleCache = Map.empty, heap = [], creatorCalls = [] \<rparr>"

text \<open>The template string \<^verbatim>\<open>`${theme.colors.primary.main}-${theme.colors.background.default}`\<close>.\<close>

definition cacheKey :: "'z Theme_scheme \<Rightarrow> string" where
  "cacheKey th = main (c_primary (colors th)) @ ''-'' @ bg_default (c_background (colors th))"

text \<open>
  One call of the accessor \<^verbatim>\<open>createStyles(styleCreator)\<close> on a theme: the address it returns
  and the module state it leaves. \<^verbatim>\<open>StyleSheet.create\<close> hands back the object it is given; the
  object literal that the style creator builds is a new object at every call.
\<close>

definition createStyles ::
  "('z Theme_scheme \<Rightarrow> 'st) \<Rightarrow> 'z Theme_scheme \<Rightarrow> ('st, 'z) StyleModule
     \<Rightarrow> nat \<times> ('st, 'z) StyleModule" where
  "createStyles styleCreator th m =
     (case styleCache m (cacheKey th) of
        Some styles \<Rightarrow> (styles, m)
      | None \<Rightarrow>
          (let styles = length (heap m)
           in (styles,
               m\<lparr> heap := heap m @ [styleCreator th],
                  creatorCalls := creatorCalls m @ [th],
                  styleCache := (styleCache m)(cacheKey th \<mapsto> styles) \<rparr>)))"

definition clearStyleCache :: "('st, 'z) StyleModule \<Rightarrow> ('st, 'z) StyleModule" where
  "clearStyleCache m = m\<lparr> styleCache := Map.empty \<rparr>"

text \<open>A run of accessor calls, each with its style creator and its theme, with no clearing between.\<close>

fun accessorCalls ::
  "(('z Theme_scheme \<Rightarrow> 'st) \<times> 'z Theme_scheme) list \<Rightarrow> ('st, 'z) StyleModule
     \<Rightarrow> ('st, 'z) StyleModule" where
  "accessorCalls [] m = m"
| "accessorCalls ((styleCreator, th) # cs) m =
     accessorCalls cs (snd (createStyles styleCreator th m))"


section \<open>Reading a property of an object literal\<close>

text \<open>
  \<^verbatim>\<open>obj[key]\<close> on an object written as a literal finds the object's own property, and
  otherwise the property of that name of \<^verbatim>\<open>Object.prototype\<close>, the prototype of every object
  literal (ECMAScript, OrdinaryGet); only a name that neither has reads as \<^verbatim>\<open>undefined\<close>.
  The string-keyed properties of \<^verbatim>\<open>Object.prototype\<close> are those of ECMAScript 20.1.3 and
  Annex B.2.2. Each inherited value is a function, or for \<^verbatim>\<open>__proto__\<close> the prototype object:
  never a string, always truthy. An object is the map of its own properties.
\<close>

definition Object_prototype :: "string list" where
  "Object_prototype =
     [''constructor'', ''hasOwnProperty'', ''isPrototypeOf'', ''propertyIsEnumerable'',
      ''toLocaleString'', ''toString'', ''valueOf'', ''__proto__'', ''__defineGetter__'',
      ''__defineSetter__'', ''__lookupGetter__'', ''__lookupSetter__'']"

datatype 'v property = Own 'v | FromPrototype string | Undefined

definition get_property :: "(string \<rightharpoonup> 'v) \<Rightarrow> string \<Rightarrow> 'v property" where
  "get_property obj key =
     (case obj key of
        Some v \<Rightarrow> Own v
      | None \<Rightarrow> if key \<in> set Object_prototype then FromPrototype key else Undefined)"


section \<open>ThemedText (src/components/ThemedText/index.tsx)\<close>

text \<open>
  What \<^verbatim>\<open>getTextColor\<close> returns at run time: a string, or the member of
  \<^verbatim>\<open>Object.prototype\<close> of the given name.
\<close>

datatype js_value = JSString string | Inherited string

text \<open>
  \<^verbatim>\<open>return colorMap[color] || color\<close>: a string is falsy exactly when it is empty, an inherited
  member is truthy, \<^verbatim>\<open>undefined\<close> is falsy.
\<close>

definition getTextColor :: "string \<Rightarrow> 'z Theme_scheme \<Rightarrow> js_value" where
  "getTextColor color th =
     (let colorMap =
            [''primary'' \<mapsto> tx_primary (c_text (colors th)),
             ''secondary'' \<mapsto> tx_secondary (c_text (colors th)),
             ''disabled'' \<mapsto> tx_disabled (c_text (colors th)),
             ''inverse'' \<mapsto> tx_inverse (c_text (colors th))]
      in case get_property colorMap color of
           Own v \<Rightarrow> if v \<noteq> [] then JSString v else JSString color
         | FromPrototype k \<Rightarrow> Inherited k
         | Undefined \<Rightarrow> JSString color)"

text \<open>
  The component, as far as the colour goes: the \<^verbatim>\<open>color\<close> entry of \<^verbatim>\<open>textStyle\<close>, with the
  default parameter \<^verbatim>\<open>color = 'primary'\<close>.
\<close>

definition ThemedText :: "ThemeContextType list \<Rightarrow> string option \<Rightarrow> error + js_value" where
  "ThemedText scope color =
     (case useTheme scope of
        Inl e \<Rightarrow> Inl e
      | Inr context \<Rightarrow>
          Inr (getTextColor (case color of None \<Rightarrow> ''primary'' | Some c \<Rightarrow> c) (theme context)))"


section \<open>Variant lookup (makeStyles utility, useVariant)\<close>

text \<open>
  What a call \<^verbatim>\<open>variantCreator(theme)\<close> yields: the styles of a creator of the variants object,
  or the result of a member inherited from \<^verbatim>\<open>Object.prototype\<close> called as a plain function
  (module code is strict, so its \<^verbatim>\<open>this\<close> is \<^verbatim>\<open>undefined\<close>): \<^verbatim>\<open>constructor\<close> is \<^verbatim>\<open>Object\<close>,
  which returns its object argument; \<^verbatim>\<open>toString\<close> returns \<^verbatim>\<open>"[object Undefined]"\<close>; the
  others convert \<^verbatim>\<open>this\<close> to an object, or are not callable, and raise a TypeError.
\<close>

datatype 'a variant_result = Styles 'a | ThemeObject Theme | StringValue string

definition call_inherited :: "string \<Rightarrow> Theme \<Rightarrow> error + 'a variant_result" where
  "call_inherited k th =
     (if k = ''constructor'' then Inr (ThemeObject th)
      else if k = ''toString'' then Inr (StringValue ''[object Undefined]'')
      else Inl TypeError)"

definition useVariant ::
  "ThemeContextType list \<Rightarrow> (string \<rightharpoonup> (Theme \<Rightarrow> 'a)) \<Rightarrow> string \<Rightarrow> error + 'a variant_result" where
  "useVariant scope variants variant =
     (case useTheme scope of
        Inl e \<Rightarrow> Inl e
      | Inr context \<Rightarrow>
          (case get_property variants variant of
             Undefined \<Rightarrow>
               Inl (Error (''Variant '' @ [CHR 0x22] @ variant @ [CHR 0x22]
                           @ '' not found in variants object''))
           | Own variantCreator \<Rightarrow> Inr (Styles (variantCreator (theme context)))
           | FromPrototype k \<Rightarrow> call_inherited k (theme context)))"


section \<open>ThemedButton (src/components/ThemedButton)\<close>

datatype ButtonVariant = Filled | Outlined | TextVariant | Elevated

datatype ButtonColor = Primary | Secondary | Success | ErrorColor | Warning | Golden

datatype ButtonSize = Small | Medium | Large

text \<open>
  The props the component destructures; \<open>None\<close> is a prop left out. The caller's handler acts
  on the caller's world \<open>'w\<close>. The style functions read \<open>variant\<close>, \<open>color\<close> and \<open>buttonSize\<close>
  (the prop \<^verbatim>\<open>size\<close>) only; the press handler does not.
\<close>

record ('ev, 'w) ThemedButtonProps =
  variant :: "ButtonVariant option"
  color :: "ButtonColor option"
  buttonSize :: "ButtonSize option"
  loading :: "bool option"
  fullWidth :: "bool option"
  disabled :: "bool option"
  onPress :: "('ev \<Rightarrow> 'w \<Rightarrow> 'w) option"

text \<open>\<^verbatim>\<open>const isDisabled = disabled || loading\<close>, both with the default \<^verbatim>\<open>false\<close>.\<close>

definition isDisabled :: "('ev, 'w) ThemedButtonProps \<Rightarrow> bool" where
  "isDisabled props =
     ((case disabled props of None \<Rightarrow> False | Some b \<Rightarrow> b)
      \<or> (case loading props of None \<Rightarrow> False | Some b \<Rightarrow> b))"

text \<open>\<^verbatim>\<open>if (!isDisabled && onPress) { onPress(event); }\<close>\<close>

definition handlePress :: "('ev, 'w) ThemedButtonProps \<Rightarrow> 'ev \<Rightarrow> 'w \<Rightarrow> 'w" where
  "handlePress props event w =
     (case onPress props of
        Some handler \<Rightarrow> if \<not> isDisabled props then handler event w else w
      | None \<Rightarrow> w)"

text \<open>
  The props the component gives the host's \<^verbatim>\<open>TouchableOpacity\<close>. The spread \<^verbatim>\<open>{...rest}\<close> after
  them holds neither \<^verbatim>\<open>onPress\<close> nor \<^verbatim>\<open>disabled\<close>, which the component destructured.
\<close>

record ('ev, 'w) TouchableOpacityProps =
  el_onPress :: "'ev \<Rightarrow> 'w \<Rightarrow> 'w"
  el_disabled :: bool
  el_busy :: bool

definition ThemedButton ::
  "ThemeContextType list \<Rightarrow> ('ev, 'w) ThemedButtonProps \<Rightarrow> error + ('ev, 'w) TouchableOpacityProps" where
  "ThemedButton scope props =
     (case useTheme scope of
        Inl e \<Rightarrow> Inl e
      | Inr context \<Rightarrow>
          Inr \<lparr> el_onPress = handlePress props,
                el_disabled = isDisabled props,
                el_busy = (case loading props of None \<Rightarrow> False | Some b \<Rightarrow> b) \<rparr>)"


section \<open>Resolution of the active scheme\<close>

text \<open>
  C2. Whatever the props, an explicit selection is the resolved scheme for every preference of
  the environment (so a later change of that preference does not change it), and the selection
  auto resolves to the environment's preference, light when the environment has none.
\<close>

theorem ThemeProvider_resolves_scheme:
  "colorScheme (ThemeProvider props \<lparr> userColorScheme = Scheme s \<rparr> e) = s
   \<and> colorScheme (ThemeProvider props \<lparr> userColorScheme = Auto \<rparr> (Some e')) = e'
   \<and> colorScheme (ThemeProvider props \<lparr> userColorScheme = Auto \<rparr> None) = Light"
  by (cases e') (simp_all add: ThemeProvider_def activeColorScheme_def Let_def)

text \<open>
  The scenario of a provider started with the selection auto under a dark preference: it
  resolves to dark; after \<^verbatim>\<open>setColorScheme('light')\<close> it resolves to light under every
  preference.
\<close>

lemma setColorScheme_scenario:
  "(let props = \<lparr> initialColorScheme = Some Auto, forcedTheme = None \<rparr>;
        st0 = mount props;
        context0 = ThemeProvider props st0 (Some Dark);
        st1 = setColorScheme context0 (Scheme Light) st0
    in colorScheme context0 = Dark
       \<and> theme context0 = darkTheme
       \<and> colorScheme (ThemeProvider props st1 e) = Light
       \<and> theme (ThemeProvider props st1 e) = lightTheme)"
  by (simp add: ThemeProvider_def activeColorScheme_def setUserColorScheme_def mount_def Let_def)


section \<open>Toggling\<close>

text \<open>
  C3. The callback \<^verbatim>\<open>toggleColorScheme\<close> built by a render sets the selection: from auto, to
  the explicit opposite of the environment's preference at that render (a dark preference gives
  light, any other gives dark); from an explicit selection, to the other explicit scheme.
\<close>

theorem toggleColorScheme_sets_selection:
  "userColorScheme (toggleColorScheme (ThemeProvider props \<lparr> userColorScheme = Auto \<rparr> e) st)
     = Scheme (if e = Some Dark then Light else Dark)
   \<and> userColorScheme (toggleColorScheme (ThemeProvider props \<lparr> userColorScheme = Scheme Light \<rparr> e) st)
     = Scheme Dark
   \<and> userColorScheme (toggleColorScheme (ThemeProvider props \<lparr> userColorScheme = Scheme Dark \<rparr> e) st)
     = Scheme Light"
  by (simp add: ThemeProvider_def activeColorScheme_def setUserColorScheme_def Let_def)

text \<open>
  C4, as amended. From an explicit selection and under a fixed preference of the environment,
  two toggles of which the second is the callback of the render that follows the first (the
  provider re-renders between them) bring back the selection, and with it the resolved scheme.
  The callback does not read the state it is applied to, so the amendment names the render
  each toggle comes from.
\<close>

theorem toggleColorScheme_twice:
  "(let st0 = \<lparr> userColorScheme = Scheme s \<rparr>;
        st1 = toggleColorScheme (ThemeProvider props st0 e) st0;
        st2 = toggleColorScheme (ThemeProvider props st1 e) st1
    in st2 = st0
       \<and> colorScheme (ThemeProvider props st2 e) = colorScheme (ThemeProvider props st0 e))"
  by (cases s) (simp_all add: ThemeProvider_def activeColorScheme_def setUserColorScheme_def Let_def)

text \<open>
  The callback of one render stores the selection worked out at that render, whatever the state
  it is applied to: called a second time before the next render, it stores the same selection
  again.
\<close>

lemma toggleColorScheme_same_render:
  "toggleColorScheme (ThemeProvider props st e) (toggleColorScheme (ThemeProvider props st e) st')
     = toggleColorScheme (ThemeProvider props st e) st'"
  by (simp add: ThemeProvider_def setUserColorScheme_def Let_def)

text \<open>
  C4 as first stated (any two applications of \<^verbatim>\<open>toggleColorScheme\<close> from an explicit selection
  give back the resolved scheme) fails for the one callback a caller holds. A provider started
  with the selection light, under a light preference, resolves to light; its callback applied
  twice in a row, with no render between, leaves the selection dark, and the provider then
  resolves to dark.
\<close>

theorem toggleColorScheme_twice_one_callback:
  "(let props = \<lparr> initialColorScheme = Some (Scheme Light), forcedTheme = None \<rparr>;
        st0 = mount props;
        context0 = ThemeProvider props st0 (Some Light);
        st2 = toggleColorScheme context0 (toggleColorScheme context0 st0)
    in userColorScheme st0 = Scheme Light
       \<and> colorScheme context0 = Light
       \<and> userColorScheme st2 = Scheme Dark
       \<and> colorScheme (ThemeProvider props st2 (Some Light)) = Dark
       \<and> colorScheme (ThemeProvider props st2 (Some Light)) \<noteq> colorScheme context0)"
  by (simp add: ThemeProvider_def activeColorScheme_def setUserColorScheme_def mount_def Let_def)

text \<open>
  C10. The selection left by a toggle is explicit, never auto, whatever the state and the
  preference at the render that built the callback; the scheme resolved from it is then the
  same under any two preferences of the environment.
\<close>

theorem toggleColorScheme_leaves_explicit:
  "userColorScheme (toggleColorScheme (ThemeProvider props st e) st') \<noteq> Auto
   \<and> colorScheme (ThemeProvider props' (toggleColorScheme (ThemeProvider props st e) st') e1)
     = colorScheme (ThemeProvider props' (toggleColorScheme (ThemeProvider props st e) st') e2)"
  by (simp add: ThemeProvider_def activeColorScheme_def setUserColorScheme_def Let_def)


section \<open>Reading the theme outside a provider\<close>

text \<open>Inside a provider the hook returns the innermost provider's value.\<close>

lemma useTheme_inside: "useTheme (c # scope) = Inr c"
  by (simp add: useTheme_def useContext_def)

text \<open>
  C5. With no provider around the caller, \<^verbatim>\<open>useTheme\<close> throws the error
  \<^verbatim>\<open>useTheme must be used within a ThemeProvider\<close> and returns no context value.
\<close>

theorem useTheme_outside_provider:
  "useTheme [] = Inl (Error ''useTheme must be used within a ThemeProvider'')
   \<and> (\<forall>context. useTheme [] \<noteq> Inr context)"
  by (simp add: useTheme_def useContext_def)


section \<open>The style cache\<close>

text \<open>
  Every theme a style creator was called on has its key in the cache, and no two of them share
  a key. One accessor call keeps this, and so does a run of calls.
\<close>

lemma createStyles_keeps_cached:
  assumes "distinct (map cacheKey (creatorCalls m))"
    and "cacheKey ` set (creatorCalls m) \<subseteq> dom (styleCache m)"
  shows "distinct (map cacheKey (creatorCalls (snd (createStyles sc t m))))
         \<and> cacheKey ` set (creatorCalls (snd (createStyles sc t m)))
             \<subseteq> dom (styleCache (snd (createStyles sc t m)))"
  using assms by (auto simp: createStyles_def Let_def split: option.splits)

lemma accessorCalls_keeps_cached:
  assumes "distinct (map cacheKey (creatorCalls m))"
    and "cacheKey ` set (creatorCalls m) \<subseteq> dom (styleCache m)"
  shows "distinct (map cacheKey (creatorCalls (accessorCalls cs m)))
         \<and> cacheKey ` set (creatorCalls (accessorCalls cs m)) \<subseteq> dom (styleCache (accessorCalls cs m))"
  using assms
proof (induction cs m rule: accessorCalls.induct)
  case (1 m)
  then show ?case by simp
next
  case (2 styleCreator th cs m)
  from createStyles_keeps_cached [OF "2.prems"]
  have "distinct (map cacheKey (creatorCalls (snd (createStyles styleCreator th m))))"
    and "cacheKey ` set (creatorCalls (snd (createStyles styleCreator th m)))
           \<subseteq> dom (styleCache (snd (createStyles styleCreator th m)))"
    by simp_all
  from "2.IH" [OF this] show ?case by simp
qed

lemma accessorCalls_distinct_keys:
  "distinct (map cacheKey (creatorCalls (accessorCalls cs initialModule)))"
  using accessorCalls_keeps_cached [of initialModule cs]
  by (simp add: initialModule_def)

text \<open>
  C7. In any state of the module, a second call of an accessor on the same theme returns the
  address the first call returned and leaves the module as the first call left it (nothing is
  computed or allocated again). In a run of accessor calls from the freshly loaded module, no
  theme is handed to a style creator twice.
\<close>

theorem createStyles_same_theme:
  "fst (createStyles sc t (snd (createStyles sc t m))) = fst (createStyles sc t m)
   \<and> snd (createStyles sc t (snd (createStyles sc t m))) = snd (createStyles sc t m)
   \<and> distinct (creatorCalls (accessorCalls cs initialModule))"
proof -
  have "fst (createStyles sc t (snd (createStyles sc t m))) = fst (createStyles sc t m)"
    by (simp add: createStyles_def Let_def split: option.splits)
  moreover have "snd (createStyles sc t (snd (createStyles sc t m))) = snd (createStyles sc t m)"
    by (simp add: createStyles_def Let_def split: option.splits)
  moreover have "distinct (creatorCalls (accessorCalls cs initialModule))"
    using accessorCalls_distinct_keys [of cs] by (simp add: distinct_map)
  ultimately show ?thesis by simp
qed

text \<open>
  The key holds neither the rest of the theme nor the style creator. Once a call has computed
  the styles of \<open>f\<close> for a theme \<open>t\<close>, a call for any theme with the key of \<open>t\<close>, through the
  accessor of any style creator \<open>g\<close>, returns that object.
\<close>

lemma createStyles_collision:
  assumes "styleCache m (cacheKey t) = None" and "cacheKey t' = cacheKey t"
  shows "fst (createStyles g t' (snd (createStyles f t m))) = fst (createStyles f t m)
         \<and> heap (snd (createStyles g t' (snd (createStyles f t m))))
             ! fst (createStyles g t' (snd (createStyles f t m))) = f t"
  using assms by (simp add: createStyles_def Let_def)

text \<open>
  C1 (themes that agree on \<^verbatim>\<open>colors.primary.main\<close> and \<^verbatim>\<open>colors.background.default\<close> and differ
  elsewhere each get the styles computed from themselves). The accessor does not do this. Take
  the style creator that reads \<^verbatim>\<open>theme.colors.text.primary\<close>, the light theme, and a custom
  theme that is the light theme with the text colour \<^verbatim>\<open>#000000\<close>. The themes differ and have
  the same key. From the freshly loaded module, the call on the light theme stores the styles
  of the light theme, and the call on the custom theme then returns that same object, with the
  light theme's \<^verbatim>\<open>#2d3748\<close>, where the custom theme's styles are \<^verbatim>\<open>#000000\<close>.
\<close>

theorem createStyles_key_collision:
  "(let styleCreator = (\<lambda>t. tx_primary (c_text (colors t)));
        custom = lightTheme\<lparr> colors := (colors lightTheme)
                   \<lparr> c_text := (c_text (colors lightTheme))\<lparr> tx_primary := ''#000000'' \<rparr> \<rparr> \<rparr>;
        (styles1, m1) = createStyles styleCreator lightTheme initialModule;
        (styles2, m2) = createStyles styleCreator custom m1
    in custom \<noteq> lightTheme
       \<and> cacheKey custom = cacheKey lightTheme
       \<and> styleCreator lightTheme = ''#2d3748''
       \<and> styleCreator custom = ''#000000''
       \<and> heap m1 ! styles1 = ''#2d3748''
       \<and> styles2 = styles1
       \<and> heap m2 ! styles2 = ''#2d3748'')"
  by (simp add: createStyles_def cacheKey_def initialModule_def lightTheme_def lightColors_def Let_def)


section \<open>Text colour\<close>

text \<open>
  A string that is neither one of the four keys of \<^verbatim>\<open>colorMap\<close> nor the name of a member of
  \<^verbatim>\<open>Object.prototype\<close> is returned as it is. A key gives the theme's colour, unless that colour
  is the empty string. Inside a provider the component never raises.
\<close>

lemma getTextColor_custom:
  assumes "c \<notin> set [''primary'', ''secondary'', ''disabled'', ''inverse'']"
    and "c \<notin> set Object_prototype"
  shows "getTextColor c th = JSString c"
  using assms by (simp add: getTextColor_def get_property_def)

lemma getTextColor_primary:
  "getTextColor ''primary'' th
     = JSString (if tx_primary (c_text (colors th)) \<noteq> [] then tx_primary (c_text (colors th))
                 else ''primary'')"
  by (simp add: getTextColor_def get_property_def)

lemma ThemedText_never_raises:
  "ThemedText (context # scope) c
     = Inr (getTextColor (case c of None \<Rightarrow> ''primary'' | Some x \<Rightarrow> x) (theme context))"
  by (simp add: ThemedText_def useTheme_def useContext_def)

text \<open>
  C9 (a colour string that is not one of the keys primary, secondary, disabled, inverse is
  used verbatim as the text colour). The lookup \<^verbatim>\<open>colorMap[color]\<close> also finds what the object
  literal inherits. For the string \<^verbatim>\<open>constructor\<close>, which is none of the four keys, the
  component inside a default provider does not use the string: the colour of its text style is
  the inherited member of that name, the function \<^verbatim>\<open>Object\<close>.
\<close>

theorem ThemedText_inherited_name:
  "ThemedText [ThemeProvider \<lparr> initialColorScheme = None, forcedTheme = None \<rparr>
                 (mount \<lparr> initialColorScheme = None, forcedTheme = None \<rparr>) None]
              (Some ''constructor'')
     = Inr (Inherited ''constructor'')
   \<and> ''constructor'' \<notin> set [''primary'', ''secondary'', ''disabled'', ''inverse'']
   \<and> getTextColor ''constructor'' lightTheme \<noteq> JSString ''constructor''"
  by (simp add: ThemedText_def useTheme_def useContext_def getTextColor_def get_property_def
      Object_prototype_def)


section \<open>Variant lookup\<close>

text \<open>
  A variant the object has is created from the provider's theme. A name that the object does
  not have and \<^verbatim>\<open>Object.prototype\<close> does not have either raises the error of \<^verbatim>\<open>useVariant\<close>.
\<close>

lemma useVariant_own:
  assumes "variants v = Some variantCreator"
  shows "useVariant (context # scope) variants v = Inr (Styles (variantCreator (theme context)))"
  using assms by (simp add: useVariant_def useTheme_def useContext_def get_property_def)

lemma useVariant_missing:
  assumes "variants v = None" and "v \<notin> set Object_prototype"
  shows "useVariant (context # scope) variants v
           = Inl (Error (''Variant '' @ [CHR 0x22] @ v @ [CHR 0x22] @ '' not found in variants object''))"
  using assms by (simp add: useVariant_def useTheme_def useContext_def get_property_def)

text \<open>
  C8 (a variant name absent from the variants object raises the error in \<^verbatim>\<open>useVariant\<close>, while
  the colour lookup of ThemedText never raises). The test \<^verbatim>\<open>!variantCreator\<close> does not catch a
  name that the variants object only inherits. With the variants primary and secondary, inside
  a default provider, the absent name \<^verbatim>\<open>constructor\<close> raises nothing: the call returns the
  theme object itself, and the absent name \<^verbatim>\<open>toString\<close> returns a string. The colour lookup
  with an unknown colour name returns that name and raises nothing.
\<close>

theorem useVariant_inherited_name:
  "(let variants = [''primary'' \<mapsto> (\<lambda>t. main (c_primary (colors t))),
                    ''secondary'' \<mapsto> (\<lambda>t. main (c_secondary (colors t)))];
        context = ThemeProvider \<lparr> initialColorScheme = None, forcedTheme = None \<rparr>
                    (mount \<lparr> initialColorScheme = None, forcedTheme = None \<rparr>) None
    in variants ''constructor'' = None
       \<and> useVariant [context] variants ''constructor'' = Inr (ThemeObject lightTheme)
       \<and> variants ''toString'' = None
       \<and> useVariant [context] variants ''toString'' = Inr (StringValue ''[object Undefined]'')
       \<and> variants ''tertiary'' = None
       \<and> useVariant [context] variants ''tertiary''
           = Inl (Error (''Variant '' @ [CHR 0x22] @ ''tertiary'' @ [CHR 0x22]
                         @ '' not found in variants object''))
       \<and> ThemedText [context] (Some ''tertiary'') = Inr (JSString ''tertiary''))"
  by (simp add: useVariant_def ThemedText_def getTextColor_def useTheme_def useContext_def
      get_property_def Object_prototype_def call_inherited_def ThemeProvider_def mount_def
      activeColorScheme_def Let_def)


section \<open>Button presses\<close>

text \<open>With neither flag set, a press reaches the caller's handler.\<close>

lemma handlePress_enabled:
  assumes "disabled props \<noteq> Some True" and "loading props \<noteq> Some True"
    and "onPress props = Some handler"
  shows "handlePress props event w = handler event w"
  using assms by (auto simp: handlePress_def isDisabled_def split: option.splits)

text \<open>
  C6. When the disabled flag or the loading flag is set, then for every variant, colour and
  size, every handler and every press event, \<^verbatim>\<open>handlePress\<close> leaves the caller's world as it
  was: the handler is not called. The button rendered inside a provider carries this
  \<^verbatim>\<open>handlePress\<close> as its press handler and is marked disabled for the host.
\<close>

theorem ThemedButton_onPress_gated:
  assumes "disabled props = Some True \<or> loading props = Some True"
  shows "handlePress props event w = w
         \<and> (case ThemedButton (context # scope) props of
               Inl e \<Rightarrow> False
             | Inr el \<Rightarrow> el_onPress el event w = w \<and> el_disabled el)"
proof -
  from assms have dis: "isDisabled props"
    by (auto simp: isDisabled_def)
  then have "handlePress props event w = w"
    by (simp add: handlePress_def split: option.splits)
  with dis show ?thesis
    by (simp add: ThemedButton_def useTheme_def useContext_def)
qed

text \<open>
  A loading outlined golden large button whose handler appends the event to a log: the press
  of event 7 leaves the empty log empty.
\<close>

theorem ThemedButton_onPress_gated_witness:
  "(let props = \<lparr> variant = Some Outlined, color = Some Golden, buttonSize = Some Large,
                   loading = Some True, fullWidth = None, disabled = None,
                   onPress = Some (\<lambda>ev log. log @ [ev]) \<rparr>
    in loading props = Some True \<and> handlePress props (7::nat) [] = [])"
  using ThemedButton_onPress_gated
    [of "\<lparr> variant = Some Outlined, color = Some Golden, buttonSize = Some Large,
           loading = Some True, fullWidth = None, disabled = None,
           onPress = Some (\<lambda>ev log. log @ [ev]) \<rparr>" "7::nat" "[]"]
  by simp

end
